theory Spec2Isabelle
  imports Complex_Main "HOL-Library.Sublist"
begin

section \<open>The map view component (src/components/home/index.tsx)\<close>

text \<open>
  The component is a React function component over the OpenLayers rendering engine.
  Its six hooks (lines 22-27), its two effects (lines 33-61 and 67-88), the measure
  handler (lines 92-114) and the rendered markup (lines 116-130) are embedded below.
  Objects the component shares by reference (the map and the vector source) live in an
  explicit store; every call the component makes on the map is also recorded in order,
  so that claims about "before" and "exactly once" can be stated.
\<close>

subsection \<open>Values of the rendering engine\<close>

text \<open>
  JavaScript numbers are used only as literals (the view's center and zoom) and as
  opaque results handed from the spherical helpers to the formatter; the component does
  no arithmetic of its own. They are embedded as reals.
\<close>

type_synonym number = real
type_synonym coordinate = "number list"

text \<open>The geometry classes of ol/geom; \<open>instanceof\<close> tests the constructor.\<close>

datatype geometry =
    Point coordinate
  | LineString "coordinate list"
  | LinearRing "coordinate list"
  | Polygon "coordinate list list"
  | MultiPoint "coordinate list"
  | MultiLineString "coordinate list list"
  | MultiPolygon "coordinate list list list"
  | Circle coordinate number
  | GeometryCollection "geometry list"

text \<open>A feature; \<open>getGeometry()\<close> may return \<open>undefined\<close>.\<close>

datatype Feature = Feature (getGeometry: "geometry option")

text \<open>Line 19: \<open>type GeometryType = "Point" | "LineString" | "Polygon" | "None"\<close>.\<close>

datatype GeometryType = PointT | LineStringT | PolygonT | NoneT

text \<open>
  The imported helpers \<open>getArea\<close>, \<open>getLength\<close> (ol/sphere) and \<open>millify\<close> are third-party
  code; the component is parametric in them.
\<close>

record engine =
  getArea :: "geometry \<Rightarrow> number"
  getLength :: "geometry \<Rightarrow> number"
  millify :: "number \<Rightarrow> string"

subsection \<open>Objects and the store\<close>

type_synonym ref = nat

datatype element = MapDiv

datatype tile_source = OSM

datatype layer = TileLayer tile_source | VectorLayer ref

record View =
  center :: coordinate
  zoom :: number

text \<open>\<open>new Draw({ source, type: drawType })\<close>; \<open>draw_id\<close> is the object's identity.\<close>

record Draw =
  draw_id :: ref
  draw_source :: ref
  draw_type :: GeometryType

text \<open>
  The map object. Of its interaction collection only the Draw interactions are kept:
  the engine's default interactions (pan, zoom) are never touched by the component.
\<close>

record olMap =
  target :: "element option"
  layers :: "layer list"
  view :: View
  interactions :: "Draw list"

record VectorSource =
  wrapX :: bool
  features :: "Feature list"

text \<open>Calls made on engine objects, in the order they happen.\<close>

datatype call =
    NewMap ref
  | SetTarget ref "element option"
  | AddInteraction ref Draw
  | RemoveInteraction ref Draw
  | AddFeature ref Feature

text \<open>
  One mounted component instance: the five state variables of lines 23-27, the cleanup
  closures React retains for the two effects, and the store.
\<close>

record component =
  map_st :: "ref option"
  source :: ref
  drawType :: GeometryType
  lastFeature :: "Feature option"
  measurement :: string
  mapCleanup :: "ref option"
  drawCleanup :: "(ref \<times> Draw) option"
  maps :: "ref \<rightharpoonup> olMap"
  sources :: "ref \<rightharpoonup> VectorSource"
  nextRef :: ref
  calls :: "call list"

subsection \<open>The measure handler (lines 92-114)\<close>

text \<open>
  \<open>geometry instanceof Polygon\<close> and \<open>geometry instanceof LineString\<close>: the geometry
  classes do not extend one another, and \<open>undefined\<close> is an instance of nothing.
\<close>

fun instanceofPolygon :: "geometry option \<Rightarrow> bool" where
  "instanceofPolygon (Some (Polygon rings)) = True"
| "instanceofPolygon _ = False"

fun instanceofLineString :: "geometry option \<Rightarrow> bool" where
  "instanceofLineString (Some (LineString cs)) = True"
| "instanceofLineString _ = False"

text \<open>Lines 97-110: \<open>let output = ""\<close> and the two branches that assign it.\<close>

definition output_str :: "engine \<Rightarrow> geometry option \<Rightarrow> string" where
  "output_str eng geometry =
     (if instanceofPolygon geometry then
        let area = getArea eng (the geometry)
        in ''Area: '' @ millify eng area @ '' square meters''
      else if instanceofLineString geometry then
        let length = getLength eng (the geometry)
        in ''Length: '' @ millify eng length @ '' meters''
      else '''')"

text \<open>
  Lines 92-114: nothing happens without a last feature; otherwise the output is stored
  with \<open>setMeasurement\<close> (the render that follows changes no dependency of an effect).
\<close>

definition handleMeasureClick :: "engine \<Rightarrow> component \<Rightarrow> component" where
  "handleMeasureClick eng s =
     (case lastFeature s of
        None \<Rightarrow> s
      | Some f \<Rightarrow> s\<lparr>measurement := output_str eng (getGeometry f)\<rparr>)"

subsection \<open>Calls on the store\<close>

text \<open>
  \<open>map.addInteraction(d)\<close> pushes onto the collection; \<open>map.removeInteraction(d)\<close> removes
  the first occurrence of that object; \<open>map.setTarget(t)\<close> replaces the target. A
  reference that holds no object leaves the store as it is.
\<close>

definition addInteraction :: "ref \<Rightarrow> Draw \<Rightarrow> component \<Rightarrow> component" where
  "addInteraction m d s =
     (case maps s m of
        None \<Rightarrow> s
      | Some mp \<Rightarrow>
          s\<lparr>maps := (maps s)(m \<mapsto> mp\<lparr>interactions := interactions mp @ [d]\<rparr>),
            calls := calls s @ [AddInteraction m d]\<rparr>)"

definition removeInteraction :: "ref \<Rightarrow> Draw \<Rightarrow> component \<Rightarrow> component" where
  "removeInteraction m d s =
     (case maps s m of
        None \<Rightarrow> s
      | Some mp \<Rightarrow>
          s\<lparr>maps := (maps s)(m \<mapsto> mp\<lparr>interactions := remove1 d (interactions mp)\<rparr>),
            calls := calls s @ [RemoveInteraction m d]\<rparr>)"

definition setTarget :: "ref \<Rightarrow> element option \<Rightarrow> component \<Rightarrow> component" where
  "setTarget m t s =
     (case maps s m of
        None \<Rightarrow> s
      | Some mp \<Rightarrow>
          s\<lparr>maps := (maps s)(m \<mapsto> mp\<lparr>target := t\<rparr>),
            calls := calls s @ [SetTarget m t]\<rparr>)"

definition addFeature :: "ref \<Rightarrow> Feature \<Rightarrow> component \<Rightarrow> component" where
  "addFeature r f s =
     (case sources s r of
        None \<Rightarrow> s
      | Some vs \<Rightarrow>
          s\<lparr>sources := (sources s)(r \<mapsto> vs\<lparr>features := features vs @ [f]\<rparr>),
            calls := calls s @ [AddFeature r f]\<rparr>)"

subsection \<open>Hooks and effects\<close>

text \<open>
  Lines 22-27, the first render: \<open>map\<close> is undefined, \<open>source\<close> is a new
  \<open>VectorSource({ wrapX: false })\<close>, \<open>drawType\<close> is "LineString", \<open>lastFeature\<close> is null
  and \<open>measurement\<close> is "". (Later renders evaluate \<open>new VectorSource\<close> again, but
  \<open>useState\<close> keeps the first object and the others are unreachable.)
\<close>

definition initialState :: component where
  "initialState =
     \<lparr>map_st = None, source = 0, drawType = LineStringT, lastFeature = None,
      measurement = '''', mapCleanup = None, drawCleanup = None,
      maps = Map.empty,
      sources = [0 \<mapsto> \<lparr>wrapX = False, features = []\<rparr>],
      nextRef = 1, calls = []\<rparr>"

text \<open>
  Lines 33-61, the effect with dependencies \<open>[]\<close>: it builds the map on the container and
  asks React to store it (\<open>setMap(newMap)\<close>, which takes effect at the next render); it
  leaves the cleanup \<open>() => newMap.setTarget(undefined)\<close>. The result is the reference
  handed to \<open>setMap\<close> and the state after the effect.
\<close>

definition mapInitEffect :: "component \<Rightarrow> ref \<times> component" where
  "mapInitEffect s =
     (let newMap = nextRef s;
          rasterLayer = TileLayer OSM;
          vectorLayer = VectorLayer (source s)
      in (newMap,
          s\<lparr>maps := (maps s)(newMap \<mapsto>
                \<lparr>target = Some MapDiv,
                 layers = [rasterLayer, vectorLayer],
                 view = \<lparr>center = [- 11000000, 4600000], zoom = 4\<rparr>,
                 interactions = []\<rparr>),
            nextRef := Suc (nextRef s),
            calls := calls s @ [NewMap newMap],
            mapCleanup := Some newMap\<rparr>))"

definition mapInitCleanup :: "component \<Rightarrow> component" where
  "mapInitCleanup s =
     (case mapCleanup s of
        None \<Rightarrow> s
      | Some newMap \<Rightarrow> setTarget newMap None (s\<lparr>mapCleanup := None\<rparr>))"

text \<open>
  Lines 67-88, the effect with dependencies \<open>[map, drawType, source]\<close>: the guard of
  line 68, then a new Draw on the source, attached to the map, and the cleanup
  \<open>() => { map.removeInteraction(drawInteraction) }\<close>.
\<close>

definition drawEffect :: "component \<Rightarrow> component" where
  "drawEffect s =
     (case map_st s of
        None \<Rightarrow> s\<lparr>drawCleanup := None\<rparr>
      | Some m \<Rightarrow>
          if drawType s = NoneT then s\<lparr>drawCleanup := None\<rparr>
          else
            let drawInteraction =
                  \<lparr>draw_id = nextRef s, draw_source = source s, draw_type = drawType s\<rparr>
            in addInteraction m drawInteraction
                 (s\<lparr>nextRef := Suc (nextRef s),
                    drawCleanup := Some (m, drawInteraction)\<rparr>))"

definition drawEffectCleanup :: "component \<Rightarrow> component" where
  "drawEffectCleanup s =
     (case drawCleanup s of
        None \<Rightarrow> s
      | Some (m, drawInteraction) \<Rightarrow>
          removeInteraction m drawInteraction (s\<lparr>drawCleanup := None\<rparr>))"

text \<open>
  React, when a dependency of the draw effect has changed at a render: the retained
  cleanup runs first, then the effect body.
\<close>

definition rerunDrawEffect :: "component \<Rightarrow> component" where
  "rerunDrawEffect s = drawEffect (drawEffectCleanup s)"

text \<open>
  The first commit runs both effects in order while \<open>map\<close> is still undefined; the
  pending \<open>setMap\<close> then causes a second render, at which the draw effect's dependency
  \<open>map\<close> has changed.
\<close>

definition firstCommit :: "ref \<times> component" where
  "firstCommit = (let (newMap, s) = mapInitEffect initialState in (newMap, drawEffect s))"

definition mount :: component where
  "mount = (let (newMap, s) = firstCommit in rerunDrawEffect (s\<lparr>map_st := Some newMap\<rparr>))"

text \<open>Unmounting runs the retained cleanups of both effects, in the order of the effects.\<close>

definition unmount :: "component \<Rightarrow> component" where
  "unmount s = drawEffectCleanup (mapInitCleanup s)"

subsection \<open>Event handlers\<close>

text \<open>
  Line 120, \<open>onChange={(e) => setDrawType(e.target.value as GeometryType)}\<close>, with the
  render it causes: an unchanged value leaves the dependencies of the draw effect as they
  were, a changed one reruns it.
\<close>

definition setDrawType :: "GeometryType \<Rightarrow> component \<Rightarrow> component" where
  "setDrawType v s = (if v = drawType s then s else rerunDrawEffect (s\<lparr>drawType := v\<rparr>))"

text \<open>Lines 80-82, the listener \<open>(event) => { setLastFeature(event.feature) }\<close>.\<close>

definition onDrawEnd :: "Feature \<Rightarrow> component \<Rightarrow> component" where
  "onDrawEnd f s = s\<lparr>lastFeature := Some f\<rparr>"

text \<open>
  Modelled from the spec: the engine's Draw interaction, which is third-party code. On a
  completed gesture it fires \<open>drawend\<close> to its listeners and writes the completed
  feature into the source it was constructed with ("writing completed geometries into
  the shared drawing source").
\<close>

definition finishDrawing :: "Draw \<Rightarrow> Feature \<Rightarrow> component \<Rightarrow> component" where
  "finishDrawing d f s = addFeature (draw_source d) f (onDrawEnd f s)"

text \<open>The Draw interactions held by the map objects of the store.\<close>

definition attached :: "component \<Rightarrow> Draw list" where
  "attached s =
     concat (map (\<lambda>r. case maps s r of None \<Rightarrow> [] | Some mp \<Rightarrow> interactions mp)
                 [0 ..< nextRef s])"

text \<open>The features held by the component's drawing source.\<close>

definition sourceFeatures :: "component \<Rightarrow> Feature list" where
  "sourceFeatures s = (case sources s (source s) of None \<Rightarrow> [] | Some vs \<Rightarrow> features vs)"

text \<open>
  The discrete events of a mounted component. React flushes the effects of a render
  before it handles the next discrete event, so each event is taken with the render and
  the effects it causes. A \<open>drawend\<close> comes from an interaction attached to the map; with
  none attached there is nobody to fire it.
\<close>

datatype event = Change GeometryType | DrawEnd Feature | MeasureClick

fun step :: "engine \<Rightarrow> event \<Rightarrow> component \<Rightarrow> component" where
  "step eng (Change v) s = setDrawType v s"
| "step eng (DrawEnd f) s =
     (case attached s of [] \<Rightarrow> s | d # ds \<Rightarrow> finishDrawing d f s)"
| "step eng MeasureClick s = handleMeasureClick eng s"

fun run :: "engine \<Rightarrow> event list \<Rightarrow> component \<Rightarrow> component" where
  "run eng [] s = s"
| "run eng (e # es) s = run eng es (step eng e s)"

subsection \<open>The rendered markup (lines 116-130)\<close>

text \<open>
  The select's options in document order and its value, the measure button (absent in
  mode "Point"; its text is the label followed by the blank of line 126) and the
  paragraph shown for a non-empty measurement.
\<close>

record rendered =
  options :: "GeometryType list"
  selected :: GeometryType
  button :: "string option"
  measurementP :: "string option"

definition buttonLabel :: "GeometryType \<Rightarrow> string" where
  "buttonLabel t = (if t = PolygonT then ''Measure Area'' else ''Measure Length'')"

definition render :: "component \<Rightarrow> rendered" where
  "render s =
     \<lparr>options = [LineStringT, PointT, PolygonT],
      selected = drawType s,
      button = (if drawType s \<noteq> PointT then Some (buttonLabel (drawType s) @ '' '') else None),
      measurementP = (if measurement s \<noteq> '''' then Some (measurement s) else None)\<rparr>"

text \<open>
  What the rendered markup and the attached interaction can produce: a change to one of
  the select's options, a click on the button when it is rendered, and the completion of
  a geometry of the kind the attached interaction was configured for.
\<close>

fun kindOf :: "geometry option \<Rightarrow> GeometryType" where
  "kindOf (Some (Point c)) = PointT"
| "kindOf (Some (LineString cs)) = LineStringT"
| "kindOf (Some (Polygon rings)) = PolygonT"
| "kindOf _ = NoneT"

fun enabled :: "component \<Rightarrow> event \<Rightarrow> bool" where
  "enabled s (Change v) = (v \<in> set (options (render s)))"
| "enabled s MeasureClick = (button (render s) \<noteq> None)"
| "enabled s (DrawEnd f) =
     (case attached s of [] \<Rightarrow> False | d # ds \<Rightarrow> kindOf (getGeometry f) = draw_type d)"

fun usable :: "engine \<Rightarrow> component \<Rightarrow> event list \<Rightarrow> bool" where
  "usable eng s [] = True"
| "usable eng s (e # es) = (enabled s e \<and> usable eng (step eng e s) es)"

subsection \<open>Observations\<close>

text \<open>The map object the state variable \<open>map\<close> refers to.\<close>

definition theMap :: "component \<Rightarrow> olMap option" where
  "theMap s = (case map_st s of None \<Rightarrow> None | Some m \<Rightarrow> maps s m)"

text \<open>The calls that detach a map from its container: \<open>setTarget(undefined)\<close>.\<close>

fun isDetach :: "call \<Rightarrow> bool" where
  "isDetach (SetTarget m None) = True"
| "isDetach _ = False"

definition detachCalls :: "component \<Rightarrow> call list" where
  "detachCalls s = filter isDetach (calls s)"

text \<open>
  The shape of a mounted component between two events: the state variable \<open>map\<close> and
  the init effect's cleanup hold the one map of the store, the map is on its container
  with the layers and view it was built with, its Draw interactions are exactly the one
  the draw effect's cleanup retains (none in mode "None"), that interaction is configured
  for the current mode and the component's source, no measurement text precedes the
  first drawing, and the map has not been detached.
\<close>

definition mounted :: "component \<Rightarrow> bool" where
  "mounted s \<longleftrightarrow>
     map_st s = Some 1 \<and> mapCleanup s = Some 1 \<and> source s = 0 \<and> 2 \<le> nextRef s \<and>
     sources s 0 \<noteq> None \<and>
     (\<forall>r. r \<noteq> 1 \<longrightarrow> maps s r = None) \<and>
     maps s 1 =
       Some \<lparr>target = Some MapDiv,
             layers = [TileLayer OSM, VectorLayer 0],
             view = \<lparr>center = [- 11000000, 4600000], zoom = 4\<rparr>,
             interactions = (case drawCleanup s of None \<Rightarrow> [] | Some (m, d) \<Rightarrow> [d])\<rparr> \<and>
     (case drawCleanup s of
        None \<Rightarrow> drawType s = NoneT
      | Some (m, d) \<Rightarrow>
          m = 1 \<and> draw_type d = drawType s \<and> draw_source d = 0 \<and> drawType s \<noteq> NoneT) \<and>
     (lastFeature s = None \<longrightarrow> measurement s = '''') \<and>
     detachCalls s = []"

subsection \<open>Example inputs\<close>

text \<open>
  Stand-ins for the third-party helpers and three features, used only to evaluate the
  component on concrete runs.
\<close>

definition sampleEngine :: engine where
  "sampleEngine =
     \<lparr>getArea = (\<lambda>g. 2500000),
      getLength = (\<lambda>g. 1200),
      millify = (\<lambda>x. if x = 1200 then ''1.2K'' else if x = 2500000 then ''2.5M'' else ''0'')\<rparr>"

definition lineFeature :: Feature where
  "lineFeature = Feature (Some (LineString [[0, 0], [1000, 0]]))"

definition pointFeature :: Feature where
  "pointFeature = Feature (Some (Point [5, 5]))"

definition polygonFeature :: Feature where
  "polygonFeature = Feature (Some (Polygon [[[0, 0], [1000, 0], [1000, 1000], [0, 0]]]))"

section \<open>Properties\<close>

subsection \<open>Facts shared by the properties\<close>

lemmas effect_defs =
  mapInitEffect_def mapInitCleanup_def drawEffect_def drawEffectCleanup_def
  rerunDrawEffect_def addInteraction_def removeInteraction_def setTarget_def addFeature_def

lemma concat_single: "m < n \<Longrightarrow> concat (map (\<lambda>r. if r = m then xs else []) [0 ..< n]) = xs"
proof (induction n)
  case 0
  then show ?case by simp
next
  case (Suc n)
  show ?case
  proof (cases "m < n")
    case True
    with Suc.IH show ?thesis by simp
  next
    case False
    with Suc.prems have "m = n" by simp
    then have "concat (map (\<lambda>r. if r = m then xs else []) [0 ..< n]) = []"
      by simp
    with \<open>m = n\<close> show ?thesis by simp
  qed
qed

lemma attached_single:
  assumes "maps s m = Some mp" and "\<forall>r. r \<noteq> m \<longrightarrow> maps s r = None" and "m < nextRef s"
  shows "attached s = interactions mp"
proof -
  have "(\<lambda>r. case maps s r of None \<Rightarrow> [] | Some mp \<Rightarrow> interactions mp)
          = (\<lambda>r. if r = m then interactions mp else [])"
    using assms(1,2) by (auto simp: fun_eq_iff)
  then show ?thesis
    using assms(3) by (simp add: attached_def concat_single)
qed

lemma mounted_mount: "mounted mount"
  by (simp add: mounted_def detachCalls_def mount_def firstCommit_def initialState_def
      effect_defs Let_def)

lemma mounted_attached:
  assumes "mounted s"
  shows "attached s = (case drawCleanup s of None \<Rightarrow> [] | Some (m, d) \<Rightarrow> [d])"
proof -
  from assms obtain mp where mp: "maps s 1 = Some mp"
    and i: "interactions mp = (case drawCleanup s of None \<Rightarrow> [] | Some (m, d) \<Rightarrow> [d])"
    and o: "\<forall>r. r \<noteq> 1 \<longrightarrow> maps s r = None"
    and n: "2 \<le> nextRef s"
    by (auto simp: mounted_def)
  from n have "1 < nextRef s" by simp
  with mp o have "attached s = interactions mp" by (rule attached_single)
  with i show ?thesis by simp
qed

lemma mounted_setDrawType: "mounted s \<Longrightarrow> mounted (setDrawType v s)"
  by (auto simp: mounted_def detachCalls_def setDrawType_def effect_defs Let_def
      split: option.splits)

lemma mounted_handleMeasureClick: "mounted s \<Longrightarrow> mounted (handleMeasureClick eng s)"
  by (auto simp: mounted_def detachCalls_def handleMeasureClick_def split: option.splits)

lemma mounted_finishDrawing:
  "mounted s \<Longrightarrow> draw_source d = 0 \<Longrightarrow> mounted (finishDrawing d f s)"
  by (auto simp: mounted_def detachCalls_def finishDrawing_def onDrawEnd_def addFeature_def
      split: option.splits)

lemma mounted_draw_source:
  assumes "mounted s" and "attached s = d # ds"
  shows "draw_source d = source s \<and> draw_type d = drawType s \<and> ds = []"
  using assms by (auto simp: mounted_attached mounted_def split: option.splits)

lemma mounted_step:
  assumes "mounted s" shows "mounted (step eng e s)"
proof (cases e)
  case (Change v)
  with assms show ?thesis by (simp add: mounted_setDrawType)
next
  case (DrawEnd f)
  show ?thesis
  proof (cases "attached s")
    case Nil
    with DrawEnd assms show ?thesis by simp
  next
    case (Cons d ds)
    with assms have "draw_source d = 0"
      using mounted_draw_source [of s d ds] by (simp add: mounted_def)
    with assms have "mounted (finishDrawing d f s)" by (simp add: mounted_finishDrawing)
    with DrawEnd Cons show ?thesis by simp
  qed
next
  case MeasureClick
  with assms show ?thesis by (simp add: mounted_handleMeasureClick)
qed

lemma mounted_run: "mounted s \<Longrightarrow> mounted (run eng es s)"
  by (induction es arbitrary: s) (simp_all add: mounted_step)

lemma mounted_reachable: "mounted (run eng es mount)"
  by (simp add: mounted_run mounted_mount)

lemma lastFeature_setDrawType: "lastFeature (setDrawType v s) = lastFeature s"
  by (simp add: setDrawType_def effect_defs Let_def split: option.splits)

lemma lastFeature_mode_changes: "lastFeature (run eng (map Change ms) s) = lastFeature s"
  by (induction ms arbitrary: s) (simp_all add: lastFeature_setDrawType)

lemma measure_linestring:
  assumes "lastFeature s = Some f" and "getGeometry f = Some (LineString cs)"
  shows "measurement (handleMeasureClick eng s) =
           ''Length: '' @ millify eng (getLength eng (LineString cs)) @ '' meters''"
  using assms by (simp add: handleMeasureClick_def output_str_def)

lemma lastFeature_finishDrawing: "lastFeature (finishDrawing d f s) = Some f"
  by (simp add: finishDrawing_def onDrawEnd_def addFeature_def split: option.splits)

lemmas run_defs =
  mount_def firstCommit_def initialState_def effect_defs Let_def setDrawType_def
  finishDrawing_def onDrawEnd_def handleMeasureClick_def output_str_def attached_def
  render_def buttonLabel_def

lemma drawType_setDrawType: "drawType (setDrawType v s) = v"
  by (simp add: setDrawType_def effect_defs Let_def split: option.splits)

lemma store_setDrawType:
  "sources (setDrawType v s) = sources s \<and> source (setDrawType v s) = source s"
  by (simp add: setDrawType_def effect_defs Let_def split: option.splits)

lemma mounted_calls_setDrawType:
  assumes "mounted s" and "v \<noteq> drawType s"
  shows "calls (setDrawType v s) =
           calls s @ map (RemoveInteraction 1) (attached s) @
             map (AddInteraction 1) (attached (setDrawType v s))"
proof -
  from assms(1) have m: "mounted (setDrawType v s)" by (rule mounted_setDrawType)
  have a: "attached s = (case drawCleanup s of None \<Rightarrow> [] | Some (m, d) \<Rightarrow> [d])"
    using assms(1) by (rule mounted_attached)
  have b: "attached (setDrawType v s) =
             (case drawCleanup (setDrawType v s) of None \<Rightarrow> [] | Some (m, d) \<Rightarrow> [d])"
    using m by (rule mounted_attached)
  from assms show ?thesis
    unfolding a b
    by (auto simp: mounted_def setDrawType_def effect_defs Let_def split: option.splits)
qed

lemma mounted_cleanup_detaches:
  assumes "mounted s"
  shows "attached (drawEffectCleanup (s\<lparr>drawType := v\<rparr>)) = []"
proof -
  let ?c = "drawEffectCleanup (s\<lparr>drawType := v\<rparr>)"
  from assms have "\<exists>mp. maps ?c 1 = Some mp \<and> interactions mp = []"
    by (auto simp: mounted_def effect_defs split: option.splits)
  then obtain mp where mp: "maps ?c 1 = Some mp" and i: "interactions mp = []" by blast
  from assms have o: "\<forall>r. r \<noteq> 1 \<longrightarrow> maps ?c r = None"
    by (auto simp: mounted_def effect_defs split: option.splits)
  from assms have "1 < nextRef ?c"
    by (auto simp: mounted_def effect_defs split: option.splits)
  with mp o have "attached ?c = interactions mp" by (rule attached_single)
  with i show ?thesis by simp
qed

lemma drawEffect_guard:
  assumes "map_st s = None \<or> drawType s = NoneT"
  shows "attached (drawEffect s) = attached s \<and> calls (drawEffect s) = calls s"
  using assms by (auto simp: drawEffect_def attached_def split: option.splits)

lemma drawType_step_allowed:
  assumes "enabled s e" and "drawType s \<noteq> NoneT"
  shows "drawType (step eng e s) \<noteq> NoneT"
proof (cases e)
  case (Change v)
  with assms(1) have "v \<noteq> NoneT" by (auto simp: render_def)
  with Change show ?thesis by (simp add: drawType_setDrawType)
next
  case (DrawEnd f)
  with assms(2) show ?thesis
    by (simp add: finishDrawing_def onDrawEnd_def addFeature_def split: list.splits option.splits)
next
  case MeasureClick
  with assms(2) show ?thesis
    by (simp add: handleMeasureClick_def split: option.splits)
qed

lemma drawType_usable:
  "usable eng s evs \<Longrightarrow> drawType s \<noteq> NoneT \<Longrightarrow> drawType (run eng evs s) \<noteq> NoneT"
  by (induction evs arbitrary: s) (simp_all add: drawType_step_allowed)

lemma mounted_sourceFeatures_step:
  assumes "mounted s"
  shows "prefix (sourceFeatures s) (sourceFeatures (step eng e s))"
proof (cases e)
  case (Change v)
  then show ?thesis by (simp add: sourceFeatures_def store_setDrawType)
next
  case (DrawEnd f)
  show ?thesis
  proof (cases "attached s")
    case Nil
    with DrawEnd show ?thesis by simp
  next
    case (Cons d ds)
    with assms have "draw_source d = source s" using mounted_draw_source by blast
    with DrawEnd Cons show ?thesis
      by (simp add: sourceFeatures_def finishDrawing_def onDrawEnd_def addFeature_def
          split: option.splits)
  qed
next
  case MeasureClick
  then show ?thesis
    by (simp add: sourceFeatures_def handleMeasureClick_def split: option.splits)
qed

lemma mounted_sourceFeatures_run:
  "mounted s \<Longrightarrow> prefix (sourceFeatures s) (sourceFeatures (run eng evs s))"
proof (induction evs arbitrary: s)
  case Nil
  then show ?case by simp
next
  case (Cons e evs)
  from Cons.prems have "mounted (step eng e s)" by (rule mounted_step)
  then have "prefix (sourceFeatures (step eng e s)) (sourceFeatures (run eng evs (step eng e s)))"
    by (rule Cons.IH)
  moreover from Cons.prems have "prefix (sourceFeatures s) (sourceFeatures (step eng e s))"
    by (rule mounted_sourceFeatures_step)
  ultimately show ?case by (auto intro: prefix_order.trans)
qed

lemma mounted_sourceFeatures_drawend:
  assumes "mounted s" and "drawType s \<noteq> NoneT"
  shows "sourceFeatures (step eng (DrawEnd f) s) = sourceFeatures s @ [f]"
proof -
  from assms obtain d where a: "attached s = [d]" and d: "draw_source d = 0"
    by (auto simp: mounted_attached mounted_def split: option.splits)
  from assms(1) have "source s = 0" "sources s 0 \<noteq> None" by (simp_all add: mounted_def)
  with a d show ?thesis
    by (auto simp: sourceFeatures_def finishDrawing_def onDrawEnd_def addFeature_def)
qed

lemma mounted_unmount:
  assumes "mounted s"
  shows "detachCalls (unmount s) = [SetTarget 1 None] \<and>
         map_option target (theMap (unmount s)) = Some None \<and>
         sourceFeatures (unmount s) = sourceFeatures s"
  using assms
  by (auto simp: mounted_def unmount_def detachCalls_def theMap_def sourceFeatures_def
      effect_defs split: option.splits)

subsection \<open>Measuring\<close>

text \<open>
  C2. When the last-drawn feature's geometry is a Polygon, the measure action sets the
  measurement text to exactly "Area: X square meters", X being the formatter applied to
  the spherical-area helper's result for that geometry; nothing else changes.
\<close>

theorem measure_polygon_area:
  assumes "lastFeature s = Some f" and "getGeometry f = Some g" and "instanceofPolygon (Some g)"
  shows "handleMeasureClick eng s =
           s\<lparr>measurement := ''Area: '' @ millify eng (getArea eng g) @ '' square meters''\<rparr>"
  using assms by (simp add: handleMeasureClick_def output_str_def)

theorem measure_polygon_area_witness:
  "lastFeature (run sampleEngine [Change PolygonT, DrawEnd polygonFeature] mount) =
     Some polygonFeature \<and>
   instanceofPolygon (getGeometry polygonFeature) \<and>
   measurement (handleMeasureClick sampleEngine
       (run sampleEngine [Change PolygonT, DrawEnd polygonFeature] mount)) =
     ''Area: 2.5M square meters''"
proof -
  have h: "lastFeature (run sampleEngine [Change PolygonT, DrawEnd polygonFeature] mount) =
             Some polygonFeature"
    by (simp add: run_defs)
  have g: "getGeometry polygonFeature =
             Some (Polygon [[[0, 0], [1000, 0], [1000, 1000], [0, 0]]])"
    by (simp add: polygonFeature_def)
  have p: "instanceofPolygon (Some (Polygon [[[0, 0], [1000, 0], [1000, 1000], [0, 0]]]))"
    by simp
  from measure_polygon_area [OF h g p, of sampleEngine] h g show ?thesis
    by (simp add: sampleEngine_def)
qed

text \<open>
  C1 (as the code has it). When the last-drawn feature's geometry is neither a Polygon
  nor a LineString (a Point, any other class, or no geometry), the measure action sets
  the measurement text to the empty string: no "Length" or "Area" text appears, a text
  displayed before is cleared, and nothing else changes.
\<close>

theorem measure_other_geometry_clears:
  assumes "lastFeature s = Some f"
    and "\<not> instanceofPolygon (getGeometry f)" and "\<not> instanceofLineString (getGeometry f)"
  shows "handleMeasureClick eng s = s\<lparr>measurement := ''''\<rparr>"
  using assms by (simp add: handleMeasureClick_def output_str_def)

theorem measure_other_geometry_clears_witness:
  "lastFeature (run sampleEngine [Change PointT, DrawEnd pointFeature, Change LineStringT] mount)
     = Some pointFeature \<and>
   \<not> instanceofPolygon (getGeometry pointFeature) \<and>
   \<not> instanceofLineString (getGeometry pointFeature) \<and>
   measurement (handleMeasureClick sampleEngine
     (run sampleEngine [Change PointT, DrawEnd pointFeature, Change LineStringT] mount)) = ''''"
  using measure_other_geometry_clears
    [of "run sampleEngine [Change PointT, DrawEnd pointFeature, Change LineStringT] mount"
        pointFeature sampleEngine]
  by (simp add: run_defs pointFeature_def)

text \<open>
  The claim as stated fails: a user draws a line, measures it, switches to "Point",
  draws a point and switches back to "LineString"; the text "Length: 1.2K meters" is on
  display, the last-drawn feature is the point, and the measure action replaces the text
  by the empty string.
\<close>

theorem measure_point_keeps_text_counterexample:
  "usable sampleEngine mount
     [DrawEnd lineFeature, MeasureClick, Change PointT, DrawEnd pointFeature,
      Change LineStringT, MeasureClick] \<and>
   lastFeature (run sampleEngine
     [DrawEnd lineFeature, MeasureClick, Change PointT, DrawEnd pointFeature,
      Change LineStringT] mount) = Some (Feature (Some (Point [5, 5]))) \<and>
   measurement (run sampleEngine
     [DrawEnd lineFeature, MeasureClick, Change PointT, DrawEnd pointFeature,
      Change LineStringT] mount) = ''Length: 1.2K meters'' \<and>
   measurement (handleMeasureClick sampleEngine (run sampleEngine
     [DrawEnd lineFeature, MeasureClick, Change PointT, DrawEnd pointFeature,
      Change LineStringT] mount)) = ''''"
  by (simp add: run_defs sampleEngine_def lineFeature_def pointFeature_def)

text \<open>
  C3. In mode "LineString" the attached interaction can complete a LineString feature;
  its draw-end event makes that feature the last-drawn one, and the measure action that
  follows (directly, or after any changes of mode) sets the measurement text to exactly
  "Length: X meters", X being the formatter applied to the spherical-length helper's
  result for that geometry; the text does not start with "Area".
\<close>

theorem linestring_drawend_then_measure:
  assumes "drawType (run eng evs mount) = LineStringT"
    and "getGeometry f = Some (LineString cs)"
  shows "enabled (run eng evs mount) (DrawEnd f) \<and>
         lastFeature (step eng (DrawEnd f) (run eng evs mount)) = Some f \<and>
         measurement (handleMeasureClick eng
             (run eng (map Change ms) (step eng (DrawEnd f) (run eng evs mount)))) =
           ''Length: '' @ millify eng (getLength eng (LineString cs)) @ '' meters'' \<and>
         \<not> prefix ''Area'' (measurement (handleMeasureClick eng
             (run eng (map Change ms) (step eng (DrawEnd f) (run eng evs mount)))))"
proof -
  let ?s = "run eng evs mount"
  have m: "mounted ?s" by (rule mounted_reachable)
  from m assms(1) obtain d where a: "attached ?s = [d]" and t: "draw_type d = LineStringT"
    by (auto simp: mounted_attached mounted_def split: option.splits)
  from a t assms(2) have e: "enabled ?s (DrawEnd f)" by simp
  from a have l: "lastFeature (step eng (DrawEnd f) ?s) = Some f"
    by (simp add: lastFeature_finishDrawing)
  then have "lastFeature (run eng (map Change ms) (step eng (DrawEnd f) ?s)) = Some f"
    by (simp add: lastFeature_mode_changes)
  then have t: "measurement (handleMeasureClick eng
             (run eng (map Change ms) (step eng (DrawEnd f) ?s))) =
           ''Length: '' @ millify eng (getLength eng (LineString cs)) @ '' meters''"
    using assms(2) by (rule measure_linestring)
  have "\<not> prefix ''Area'' (''Length: '' @ millify eng (getLength eng (LineString cs)) @ '' meters'')"
    by simp
  with e l t show ?thesis by simp
qed

theorem linestring_drawend_then_measure_witness:
  "drawType (run sampleEngine [Change PolygonT, Change LineStringT] mount) = LineStringT \<and>
   getGeometry lineFeature = Some (LineString [[0, 0], [1000, 0]]) \<and>
   lastFeature (step sampleEngine (DrawEnd lineFeature)
       (run sampleEngine [Change PolygonT, Change LineStringT] mount)) = Some lineFeature \<and>
   measurement (handleMeasureClick sampleEngine
       (run sampleEngine (map Change [PolygonT])
          (step sampleEngine (DrawEnd lineFeature)
             (run sampleEngine [Change PolygonT, Change LineStringT] mount)))) =
     ''Length: 1.2K meters''"
proof -
  have h: "drawType (run sampleEngine [Change PolygonT, Change LineStringT] mount) = LineStringT"
    by (simp add: run_defs)
  have g: "getGeometry lineFeature = Some (LineString [[0, 0], [1000, 0]])"
    by (simp add: lineFeature_def)
  from linestring_drawend_then_measure [OF h g, of "[PolygonT]"] h g show ?thesis
    by (simp add: sampleEngine_def)
qed

text \<open>
  C4. As long as no drawing has been completed (the last-drawn feature is none), the
  measure action changes nothing at all, and the measurement text is, and stays, empty.
\<close>

theorem measure_before_any_drawing:
  assumes "lastFeature (run eng evs mount) = None"
  shows "handleMeasureClick eng (run eng evs mount) = run eng evs mount \<and>
         measurement (run eng evs mount) = '''' \<and>
         measurementP (render (handleMeasureClick eng (run eng evs mount))) = None"
proof -
  have "mounted (run eng evs mount)" by (rule mounted_reachable)
  with assms have "measurement (run eng evs mount) = ''''" by (simp add: mounted_def)
  with assms show ?thesis by (simp add: handleMeasureClick_def render_def)
qed

theorem measure_before_any_drawing_witness:
  "lastFeature (run sampleEngine [MeasureClick, Change PolygonT, MeasureClick] mount) = None \<and>
   handleMeasureClick sampleEngine
       (run sampleEngine [MeasureClick, Change PolygonT, MeasureClick] mount) =
     run sampleEngine [MeasureClick, Change PolygonT, MeasureClick] mount \<and>
   measurement (run sampleEngine [MeasureClick, Change PolygonT, MeasureClick] mount) = ''''"
proof -
  have h: "lastFeature (run sampleEngine [MeasureClick, Change PolygonT, MeasureClick] mount) = None"
    by (simp add: run_defs)
  from measure_before_any_drawing [OF h] h show ?thesis by simp
qed

text \<open>
  C9. The text the measure action produces is determined by the last-drawn feature, not
  by the drawing mode: two states of the component with the same last-drawn feature get
  the same measurement text, whatever their modes. In particular, in mode "Polygon" the
  button is labelled "Measure Area", and with a LineString as last-drawn feature it
  produces the "Length: X meters" text.
\<close>

theorem measure_text_independent_of_mode:
  assumes "lastFeature (run eng evs mount) = lastFeature (run eng evs' mount)"
  shows "measurement (handleMeasureClick eng (run eng evs mount)) =
           measurement (handleMeasureClick eng (run eng evs' mount)) \<and>
         (drawType s = PolygonT \<and> lastFeature s = Some f \<and>
          getGeometry f = Some (LineString cs) \<longrightarrow>
            buttonLabel (drawType s) = ''Measure Area'' \<and>
            button (render s) = Some ''Measure Area '' \<and>
            measurement (handleMeasureClick eng s) =
              ''Length: '' @ millify eng (getLength eng (LineString cs)) @ '' meters'')"
proof -
  have m: "mounted (run eng evs mount)" "mounted (run eng evs' mount)"
    by (rule mounted_reachable)+
  have "measurement (handleMeasureClick eng (run eng evs mount)) =
           measurement (handleMeasureClick eng (run eng evs' mount))"
  proof (cases "lastFeature (run eng evs mount)")
    case None
    with assms have "lastFeature (run eng evs' mount) = None" by simp
    with None m show ?thesis by (simp add: handleMeasureClick_def mounted_def)
  next
    case (Some g)
    with assms have "lastFeature (run eng evs' mount) = Some g" by simp
    with Some show ?thesis by (simp add: handleMeasureClick_def)
  qed
  then show ?thesis
    by (simp add: measure_linestring render_def buttonLabel_def)
qed

theorem measure_text_independent_of_mode_witness:
  "lastFeature (run sampleEngine [DrawEnd lineFeature] mount) =
     lastFeature (run sampleEngine [DrawEnd lineFeature, Change PolygonT] mount) \<and>
   drawType (run sampleEngine [DrawEnd lineFeature] mount) = LineStringT \<and>
   drawType (run sampleEngine [DrawEnd lineFeature, Change PolygonT] mount) = PolygonT \<and>
   button (render (run sampleEngine [DrawEnd lineFeature, Change PolygonT] mount)) =
     Some ''Measure Area '' \<and>
   measurement (handleMeasureClick sampleEngine (run sampleEngine [DrawEnd lineFeature] mount)) =
     ''Length: 1.2K meters'' \<and>
   measurement (handleMeasureClick sampleEngine
       (run sampleEngine [DrawEnd lineFeature, Change PolygonT] mount)) =
     ''Length: 1.2K meters''"
proof -
  let ?a = "run sampleEngine [DrawEnd lineFeature] mount"
  let ?b = "run sampleEngine [DrawEnd lineFeature, Change PolygonT] mount"
  have h: "lastFeature ?a = lastFeature ?b"
    by (simp add: run_defs)
  have l: "lastFeature ?b = Some lineFeature" "drawType ?b = PolygonT" "drawType ?a = LineStringT"
    by (simp_all add: run_defs)
  have g: "getGeometry lineFeature = Some (LineString [[0, 0], [1000, 0]])"
    by (simp add: lineFeature_def)
  from measure_text_independent_of_mode
    [OF h, of ?b lineFeature "[[0, 0], [1000, 0]]"] h l g
  show ?thesis by (simp add: sampleEngine_def)
qed

subsection \<open>Drawing mode and interaction\<close>

text \<open>
  C5. Between any two events of a mounted component at most one Draw interaction is
  attached, it is configured for the current drawing mode (and writes to the
  component's source), and mode "None" has none attached. While the state variable
  \<open>map\<close> is still undefined (the first commit) none is attached, and the draw effect
  attaches nothing when the map is undefined or the mode is "None". A change of mode
  first removes the interaction attached before, at which point none is attached, and
  only then adds the new one.
\<close>

theorem draw_interaction_matches_mode:
  "length (attached (run eng evs mount)) \<le> 1 \<and>
   (\<forall>d \<in> set (attached (run eng evs mount)).
      draw_type d = drawType (run eng evs mount) \<and>
      draw_source d = source (run eng evs mount)) \<and>
   (drawType (run eng evs mount) = NoneT \<longrightarrow> attached (run eng evs mount) = []) \<and>
   (drawType (run eng evs mount) \<noteq> NoneT \<longrightarrow> length (attached (run eng evs mount)) = 1) \<and>
   map_st (snd firstCommit) = None \<and> attached (snd firstCommit) = [] \<and>
   (map_st s = None \<or> drawType s = NoneT \<longrightarrow>
      attached (drawEffect s) = attached s \<and> calls (drawEffect s) = calls s) \<and>
   map_st (run eng evs mount) = Some 1 \<and>
   (v \<noteq> drawType (run eng evs mount) \<longrightarrow>
      attached (drawEffectCleanup ((run eng evs mount)\<lparr>drawType := v\<rparr>)) = [] \<and>
      calls (step eng (Change v) (run eng evs mount)) =
        calls (run eng evs mount) @
        map (RemoveInteraction 1) (attached (run eng evs mount)) @
        map (AddInteraction 1) (attached (step eng (Change v) (run eng evs mount))))"
proof -
  let ?s = "run eng evs mount"
  have m: "mounted ?s" by (rule mounted_reachable)
  then have a: "attached ?s = (case drawCleanup ?s of None \<Rightarrow> [] | Some (m, d) \<Rightarrow> [d])"
    by (rule mounted_attached)
  have 1: "length (attached ?s) \<le> 1"
    unfolding a by (simp split: option.splits)
  have 2: "\<forall>d \<in> set (attached ?s). draw_type d = drawType ?s \<and> draw_source d = source ?s"
    unfolding a using m by (auto simp: mounted_def split: option.splits)
  have 3: "drawType ?s = NoneT \<longrightarrow> attached ?s = []"
    unfolding a using m by (auto simp: mounted_def split: option.splits)
  have 4: "drawType ?s \<noteq> NoneT \<longrightarrow> length (attached ?s) = 1"
    unfolding a using m by (auto simp: mounted_def split: option.splits)
  have 5: "map_st (snd firstCommit) = None \<and> attached (snd firstCommit) = []"
    by (simp add: firstCommit_def initialState_def effect_defs attached_def Let_def)
  have 6: "map_st s = None \<or> drawType s = NoneT \<longrightarrow>
      attached (drawEffect s) = attached s \<and> calls (drawEffect s) = calls s"
    using drawEffect_guard [of s] by blast
  have 7: "map_st ?s = Some 1"
    using m by (simp add: mounted_def)
  have 8: "v \<noteq> drawType ?s \<longrightarrow>
      attached (drawEffectCleanup (?s\<lparr>drawType := v\<rparr>)) = [] \<and>
      calls (step eng (Change v) ?s) =
        calls ?s @ map (RemoveInteraction 1) (attached ?s) @
        map (AddInteraction 1) (attached (step eng (Change v) ?s))"
    using mounted_cleanup_detaches [OF m, of v] mounted_calls_setDrawType [OF m, of v]
    by simp
  from 1 2 3 4 5 6 7 8 show ?thesis by blast
qed

theorem draw_interaction_matches_mode_witness:
  "attached (run sampleEngine [Change PolygonT] mount) =
     [\<lparr>draw_id = 3, draw_source = 0, draw_type = PolygonT\<rparr>] \<and>
   drawType (run sampleEngine [Change PolygonT] mount) = PolygonT \<and>
   PointT \<noteq> drawType (run sampleEngine [Change PolygonT] mount) \<and>
   map_st initialState = None \<and>
   attached (drawEffect initialState) = [] \<and>
   attached (drawEffectCleanup ((run sampleEngine [Change PolygonT] mount)\<lparr>drawType := PointT\<rparr>))
     = [] \<and>
   calls (step sampleEngine (Change PointT) (run sampleEngine [Change PolygonT] mount)) =
     calls (run sampleEngine [Change PolygonT] mount) @
     [RemoveInteraction 1 \<lparr>draw_id = 3, draw_source = 0, draw_type = PolygonT\<rparr>,
      AddInteraction 1 \<lparr>draw_id = 4, draw_source = 0, draw_type = PointT\<rparr>]"
proof -
  have a: "attached (run sampleEngine [Change PolygonT] mount) =
     [\<lparr>draw_id = 3, draw_source = 0, draw_type = PolygonT\<rparr>]"
    by (simp add: run_defs)
  have b: "attached (step sampleEngine (Change PointT) (run sampleEngine [Change PolygonT] mount)) =
     [\<lparr>draw_id = 4, draw_source = 0, draw_type = PointT\<rparr>]"
    by (simp add: run_defs)
  have t: "drawType (run sampleEngine [Change PolygonT] mount) = PolygonT"
    by (simp add: run_defs)
  have i: "map_st initialState = None" "attached initialState = []"
    by (simp_all add: initialState_def attached_def)
  from draw_interaction_matches_mode [of sampleEngine "[Change PolygonT]" initialState PointT]
    a b t i
  show ?thesis by simp
qed

text \<open>
  C7 (as the code has it). The select offers exactly the three options "LineString",
  "Point" and "Polygon", in that order. Each of them can be selected in every state and
  becomes the drawing mode; "None", which the select does not offer, is never the mode
  after any sequence of events the rendered component allows.
\<close>

theorem select_offers_three_modes:
  "options (render s) = [LineStringT, PointT, PolygonT] \<and>
   (v \<in> {LineStringT, PointT, PolygonT} \<longrightarrow>
      enabled s (Change v) \<and> drawType (step eng (Change v) s) = v \<and>
      selected (render (step eng (Change v) s)) = v) \<and>
   (usable eng mount evs \<longrightarrow> drawType (run eng evs mount) \<in> {LineStringT, PointT, PolygonT})"
proof -
  have 1: "options (render s) = [LineStringT, PointT, PolygonT]"
    by (simp add: render_def)
  have 2: "v \<in> {LineStringT, PointT, PolygonT} \<longrightarrow>
      enabled s (Change v) \<and> drawType (step eng (Change v) s) = v \<and>
      selected (render (step eng (Change v) s)) = v"
    by (auto simp: render_def drawType_setDrawType)
  have "drawType mount \<noteq> NoneT" by (simp add: run_defs)
  then have "usable eng mount evs \<longrightarrow> drawType (run eng evs mount) \<noteq> NoneT"
    by (simp add: drawType_usable)
  then have 3: "usable eng mount evs \<longrightarrow>
      drawType (run eng evs mount) \<in> {LineStringT, PointT, PolygonT}"
    by (cases "drawType (run eng evs mount)") simp_all
  from 1 2 3 show ?thesis by blast
qed

theorem select_offers_three_modes_witness:
  "PolygonT \<in> {LineStringT, PointT, PolygonT} \<and>
   usable sampleEngine mount [Change PointT, DrawEnd pointFeature, Change PolygonT] \<and>
   enabled mount (Change PolygonT) \<and>
   drawType (step sampleEngine (Change PolygonT) mount) = PolygonT \<and>
   drawType (run sampleEngine [Change PointT, DrawEnd pointFeature, Change PolygonT] mount)
     \<in> {LineStringT, PointT, PolygonT}"
proof -
  have u: "usable sampleEngine mount [Change PointT, DrawEnd pointFeature, Change PolygonT]"
    by (simp add: run_defs pointFeature_def)
  from select_offers_three_modes
    [of mount PolygonT sampleEngine "[Change PointT, DrawEnd pointFeature, Change PolygonT]"] u
  show ?thesis by simp
qed

text \<open>
  The claim as stated fails: the options of the select after mount are not the four
  modes, and a change to "None" is not an event the select can produce.
\<close>

theorem select_offers_four_modes_counterexample:
  "set (options (render mount)) \<noteq> {PointT, LineStringT, PolygonT, NoneT} \<and>
   NoneT \<notin> set (options (render mount)) \<and>
   \<not> enabled mount (Change NoneT)"
  by (auto simp: render_def)

subsection \<open>The component's lifetime\<close>

text \<open>
  C6. Right after mount, before any event, the drawing mode is "LineString" and the map
  is on its container with view center [-11000000, 4600000] and zoom 4, a tile layer on
  the OSM basemap followed by a vector layer on the component's drawing source, which
  holds no feature yet; nothing has been drawn or measured.
\<close>

theorem state_after_mount:
  "drawType mount = LineStringT \<and>
   theMap mount =
     Some \<lparr>target = Some MapDiv,
           layers = [TileLayer OSM, VectorLayer (source mount)],
           view = \<lparr>center = [- 11000000, 4600000], zoom = 4\<rparr>,
           interactions = [\<lparr>draw_id = 2, draw_source = source mount, draw_type = LineStringT\<rparr>]\<rparr> \<and>
   sources mount (source mount) = Some \<lparr>wrapX = False, features = []\<rparr> \<and>
   lastFeature mount = None \<and> measurement mount = '''' \<and>
   selected (render mount) = LineStringT"
  by (simp add: run_defs theMap_def)

text \<open>
  C8. The component keeps one drawing source for its lifetime, and nothing removes a
  feature from it: the features held after any sequence of events are still there, in
  order, after any further events and after unmount; a change of mode and a measure
  leave them as they are, and a completed drawing adds its feature at the end.
\<close>

theorem drawing_source_accumulates:
  "source (run eng evs mount) = source initialState \<and>
   sourceFeatures mount = [] \<and>
   prefix (sourceFeatures (run eng evs mount))
          (sourceFeatures (run eng evs' (run eng evs mount))) \<and>
   sourceFeatures (step eng (Change v) (run eng evs mount)) = sourceFeatures (run eng evs mount) \<and>
   sourceFeatures (step eng MeasureClick (run eng evs mount)) =
     sourceFeatures (run eng evs mount) \<and>
   (drawType (run eng evs mount) \<noteq> NoneT \<longrightarrow>
      sourceFeatures (step eng (DrawEnd f) (run eng evs mount)) =
        sourceFeatures (run eng evs mount) @ [f]) \<and>
   sourceFeatures (unmount (run eng evs mount)) = sourceFeatures (run eng evs mount)"
proof -
  let ?s = "run eng evs mount"
  have m: "mounted ?s" by (rule mounted_reachable)
  then have 1: "source ?s = source initialState"
    by (simp add: mounted_def initialState_def)
  have 2: "sourceFeatures mount = []"
    by (simp add: run_defs sourceFeatures_def)
  have 3: "prefix (sourceFeatures ?s) (sourceFeatures (run eng evs' ?s))"
    using m by (rule mounted_sourceFeatures_run)
  have 4: "sourceFeatures (step eng (Change v) ?s) = sourceFeatures ?s"
    by (simp add: sourceFeatures_def store_setDrawType)
  have 5: "sourceFeatures (step eng MeasureClick ?s) = sourceFeatures ?s"
    by (simp add: sourceFeatures_def handleMeasureClick_def split: option.splits)
  have 6: "drawType ?s \<noteq> NoneT \<longrightarrow>
      sourceFeatures (step eng (DrawEnd f) ?s) = sourceFeatures ?s @ [f]"
    using mounted_sourceFeatures_drawend [OF m, of eng f] by blast
  have 7: "sourceFeatures (unmount ?s) = sourceFeatures ?s"
    using m by (simp add: mounted_unmount)
  from 1 2 3 4 5 6 7 show ?thesis by blast
qed

theorem drawing_source_accumulates_witness:
  "drawType (run sampleEngine [DrawEnd lineFeature, Change PolygonT] mount) \<noteq> NoneT \<and>
   sourceFeatures (run sampleEngine [DrawEnd lineFeature, Change PolygonT] mount) =
     [lineFeature] \<and>
   sourceFeatures (step sampleEngine (DrawEnd polygonFeature)
       (run sampleEngine [DrawEnd lineFeature, Change PolygonT] mount)) =
     [lineFeature, polygonFeature]"
proof -
  have t: "drawType (run sampleEngine [DrawEnd lineFeature, Change PolygonT] mount) \<noteq> NoneT"
    by (simp add: run_defs)
  have f: "sourceFeatures (run sampleEngine [DrawEnd lineFeature, Change PolygonT] mount) =
     [lineFeature]"
    by (simp add: run_defs sourceFeatures_def)
  from drawing_source_accumulates
    [of sampleEngine "[DrawEnd lineFeature, Change PolygonT]" "[]" PointT polygonFeature] t f
  show ?thesis by simp
qed

text \<open>
  C10. From mount until unmount the map stays on its container and is never detached,
  whatever events happen in between; unmount detaches it from the container with
  exactly one \<open>setTarget(undefined)\<close>. The same holds for an unmount right after the
  first commit.
\<close>

theorem unmount_detaches_once:
  "detachCalls (run eng evs mount) = [] \<and>
   map_option target (theMap (run eng evs mount)) = Some (Some MapDiv) \<and>
   detachCalls (unmount (run eng evs mount)) = [SetTarget 1 None] \<and>
   length (detachCalls (unmount (run eng evs mount))) = 1 \<and>
   map_st (unmount (run eng evs mount)) = Some 1 \<and>
   map_option target (theMap (unmount (run eng evs mount))) = Some None \<and>
   detachCalls (unmount (snd firstCommit)) = [SetTarget 1 None]"
proof -
  let ?s = "run eng evs mount"
  have m: "mounted ?s" by (rule mounted_reachable)
  then have 1: "detachCalls ?s = []" "map_option target (theMap ?s) = Some (Some MapDiv)"
    by (simp_all add: mounted_def theMap_def)
  from m have 2: "detachCalls (unmount ?s) = [SetTarget 1 None]"
    "map_option target (theMap (unmount ?s)) = Some None"
    by (simp_all add: mounted_unmount)
  from m have 3: "map_st (unmount ?s) = Some 1"
    by (auto simp: mounted_def unmount_def effect_defs split: option.splits)
  have 4: "detachCalls (unmount (snd firstCommit)) = [SetTarget 1 None]"
    by (simp add: firstCommit_def initialState_def unmount_def detachCalls_def effect_defs Let_def)
  from 1 2 3 4 show ?thesis by simp
qed

end
